theory Spec2Isabelle
  imports Complex_Main
begin

section \<open>Values, errors and dictionaries\<close>

text \<open>
  The tuning module \<^verbatim>\<open>src/hpo/optuna.py\<close> handles untyped Python values. The
  fragment of the value universe that the module inspects is: \<^verbatim>\<open>None\<close>, integers
  (unbounded), strings and lists. Floats occur only as the two measurements of an
  experiment result, which the module passes on without computing on them.
\<close>

datatype pyval = VNone | VInt int | VStr string | VList "pyval list"

text \<open>
  Every exception the module can raise is a value. \<open>CollaboratorError\<close> is an
  exception raised inside code that is not part of the module (the optimizer, the
  candidate generators, the launcher). \<open>NotModelled\<close> marks the one operation whose
  result is outside the model: \<^verbatim>\<open>%\<close> with a string containing a format directive as
  left operand.
\<close>

datatype error =
    KeyError string
  | IndexError
  | TypeError
  | ZeroDivisionError
  | AttributeError string
  | CollaboratorError string
  | NotModelled

type_synonym dict = "string \<rightharpoonup> pyval"

text \<open>\<^verbatim>\<open>d[k]\<close>: a missing key raises \<^verbatim>\<open>KeyError\<close>.\<close>

definition getitem :: "dict \<Rightarrow> string \<Rightarrow> error + pyval" where
  "getitem d k = (case d k of None \<Rightarrow> Inl (KeyError k) | Some v \<Rightarrow> Inr v)"

text \<open>
  \<^verbatim>\<open>v > n\<close> for an integer \<open>n\<close>: only an integer on the left is ordered against an
  integer; \<^verbatim>\<open>None\<close>, a string or a list raise \<^verbatim>\<open>TypeError\<close>.
\<close>

fun py_gt :: "pyval \<Rightarrow> int \<Rightarrow> error + bool" where
  "py_gt (VInt a) n = Inr (a > n)"
| "py_gt v n = Inl TypeError"

text \<open>
  \<^verbatim>\<open>size % n == 0\<close>. On integers Python's \<^verbatim>\<open>%\<close> takes the sign of the divisor, as
  \<open>mod\<close> on \<open>int\<close> does, and raises \<^verbatim>\<open>ZeroDivisionError\<close> for a zero divisor
  (where \<open>a mod 0 = a\<close> in HOL). With \<^verbatim>\<open>None\<close> or a list on the left it raises
  \<^verbatim>\<open>TypeError\<close>, and so does an integer on the left of a non-integer. With a string
  on the left it is string formatting: a string without \<^verbatim>\<open>%\<close> raises \<^verbatim>\<open>TypeError\<close>
  (not all arguments converted); any other string is outside the model.
\<close>

fun mod_is_zero :: "pyval \<Rightarrow> pyval \<Rightarrow> error + bool" where
  "mod_is_zero (VInt a) (VInt n) =
     (if n = 0 then Inl ZeroDivisionError else Inr (a mod n = 0))"
| "mod_is_zero (VInt a) v = Inl TypeError"
| "mod_is_zero (VStr s) v = (if CHR ''%'' \<in> set s then Inl NotModelled else Inl TypeError)"
| "mod_is_zero VNone v = Inl TypeError"
| "mod_is_zero (VList xs) v = Inl TypeError"

section \<open>Collaborators\<close>

text \<open>
  Modelled from the spec: the enumeration \<^verbatim>\<open>TuningMode\<close> is imported from
  \<^verbatim>\<open>.utils\<close>, which is not among the sources. The spec declares it as the
  enumerated variant with the members LATENCY, THROUGHPUT and BOTH.
\<close>

datatype TuningMode = LATENCY | THROUGHPUT | BOTH

text \<open>
  Modelled from the spec: attribute access \<^verbatim>\<open>TuningMode.<name>\<close> on the enumeration
  class finds the declared members; any other name raises \<^verbatim>\<open>AttributeError\<close>.
\<close>

definition TuningMode_members :: "(string \<times> TuningMode) list" where
  "TuningMode_members =
     [(''LATENCY'', LATENCY), (''THROUGHPUT'', THROUGHPUT), (''BOTH'', BOTH)]"

definition TuningMode_getattr :: "string \<Rightarrow> error + TuningMode" where
  "TuningMode_getattr name =
     (case map_of TuningMode_members name of
        None \<Rightarrow> Inl (AttributeError name)
      | Some m \<Rightarrow> Inr m)"

text \<open>The host description \<^verbatim>\<open>CPUinfo()\<close>; the module reads one attribute of it.\<close>

record CPUinfo =
  physical_core_nums :: int

text \<open>The result of one launcher invocation.\<close>

record ExperimentResult =
  latency :: real
  throughput :: real

text \<open>
  What an objective function returns to the optimizer: one measurement, or a pair.
\<close>

datatype objective_value = Scalar real | Tuple real real

text \<open>
  The module's collaborators, as parameters of the model. \<open>'t\<close> is the state of the
  optimizer's trial object; \<^verbatim>\<open>trial.suggest_categorical(name, choices)\<close> returns a
  value and changes the trial, or raises. The candidate generators return lists of
  integers (the interface the spec gives them) or raise; the last argument of
  \<open>generate_nb_cores_candidates\<close> is its keyword argument \<^verbatim>\<open>nb_instances\<close>.
  \<open>cpu_info\<close> is what the constructor \<^verbatim>\<open>CPUinfo()\<close> returns. \<open>new_trial\<close> is
  the trial object the optimizer hands to the objective function, given the trials
  it has recorded so far.
\<close>

record 't collaborators =
  suggest_categorical :: "'t \<Rightarrow> string \<Rightarrow> pyval list \<Rightarrow> error + pyval \<times> 't"
  generate_nb_instances_candidates :: "pyval \<Rightarrow> TuningMode \<Rightarrow> CPUinfo \<Rightarrow> error + int list"
  generate_nb_cores_candidates ::
    "pyval \<Rightarrow> TuningMode \<Rightarrow> CPUinfo \<Rightarrow> pyval \<Rightarrow> error + int list"
  launch_and_wait :: "dict \<Rightarrow> dict \<Rightarrow> error + ExperimentResult"
  cpu_info :: CPUinfo
  new_trial :: "('t \<times> objective_value) list \<Rightarrow> 't"

section \<open>Parameter preparer\<close>

text \<open>
  \<^verbatim>\<open>prepare_parameter_for_optuna(trial, key, value)\<close>: a list of length one gives its
  element, any other list goes to \<^verbatim>\<open>trial.suggest_categorical\<close>, anything else is
  returned as it is.
\<close>

definition prepare_parameter_for_optuna ::
  "'t collaborators \<Rightarrow> 't \<Rightarrow> string \<Rightarrow> pyval \<Rightarrow> error + pyval \<times> 't" where
  "prepare_parameter_for_optuna env trial key v =
     (case v of
        VList xs \<Rightarrow>
          (if length xs = 1 then Inr (hd xs, trial)
           else suggest_categorical env trial key xs)
      | _ \<Rightarrow> Inr (v, trial))"

section \<open>Objective function\<close>

text \<open>
  Lines 70 to 79 of \<^verbatim>\<open>_optimize_latency_and_throughput\<close>: unless the caller gave
  \<^verbatim>\<open>"instances"\<close>, the candidates come from the generator, which is given
  \<^verbatim>\<open>main_parameters["batch_size"]\<close>; several candidates are sampled, a single one is
  taken, and \<^verbatim>\<open>[0]\<close> of no candidate raises \<^verbatim>\<open>IndexError\<close>.
\<close>

definition sample_instances ::
  "'t collaborators \<Rightarrow> TuningMode \<Rightarrow> 't \<Rightarrow> dict \<Rightarrow> dict \<Rightarrow> dict \<Rightarrow> error + dict \<times> 't" where
  "sample_instances env mode trial launcher_parameters main_parameters parameters =
     (if launcher_parameters ''instances'' \<noteq> None then Inr (parameters, trial)
      else
        case getitem main_parameters ''batch_size'' of
          Inl e \<Rightarrow> Inl e
        | Inr batch_size \<Rightarrow>
            (case generate_nb_instances_candidates env batch_size mode (cpu_info env) of
               Inl e \<Rightarrow> Inl e
             | Inr candidates \<Rightarrow>
                 (if length candidates > 1 then
                    (case suggest_categorical env trial ''instances'' (map VInt candidates) of
                       Inl e \<Rightarrow> Inl e
                     | Inr (v, trial') \<Rightarrow> Inr (parameters(''instances'' \<mapsto> v), trial'))
                  else
                    (case candidates of
                       [] \<Rightarrow> Inl IndexError
                     | c # _ \<Rightarrow> Inr (parameters(''instances'' \<mapsto> VInt c), trial)))))"

text \<open>
  Lines 81 to 92, three times the same shape: a key the caller did not give is
  sampled from fixed choices.
\<close>

definition sample_unless_given ::
  "'t collaborators \<Rightarrow> 't \<Rightarrow> dict \<Rightarrow> dict \<Rightarrow> string \<Rightarrow> pyval list \<Rightarrow> error + dict \<times> 't" where
  "sample_unless_given env trial launcher_parameters parameters key choices =
     (if launcher_parameters key \<noteq> None then Inr (parameters, trial)
      else
        case suggest_categorical env trial key choices of
          Inl e \<Rightarrow> Inl e
        | Inr (v, trial') \<Rightarrow> Inr (parameters(key \<mapsto> v), trial'))"

text \<open>
  Lines 62 to 94: the defaults, then \<^verbatim>\<open>parameters.update(launcher_parameters)\<close>. The
  result is the merged dictionary before the instance count is clamped.
\<close>

definition merged_parameters ::
  "'t collaborators \<Rightarrow> TuningMode \<Rightarrow> 't \<Rightarrow> dict \<Rightarrow> dict \<Rightarrow> error + dict \<times> 't" where
  "merged_parameters env mode trial launcher_parameters main_parameters =
     (case sample_instances env mode trial launcher_parameters main_parameters
             [''instances'' \<mapsto> VInt 1] of
        Inl e \<Rightarrow> Inl e
      | Inr (p1, t1) \<Rightarrow>
     (case sample_unless_given env t1 launcher_parameters p1 ''openmp''
             [VStr ''openmp'', VStr ''iomp''] of
        Inl e \<Rightarrow> Inl e
      | Inr (p2, t2) \<Rightarrow>
     (case sample_unless_given env t2 launcher_parameters p2 ''allocator''
             [VStr ''default'', VStr ''tcmalloc'', VStr ''jemalloc''] of
        Inl e \<Rightarrow> Inl e
      | Inr (p3, t3) \<Rightarrow>
     (case sample_unless_given env t3 launcher_parameters p3 ''huge_pages''
             [VStr ''on'', VStr ''off''] of
        Inl e \<Rightarrow> Inl e
      | Inr (p4, t4) \<Rightarrow> Inr (p4 ++ launcher_parameters, t4)))))"

text \<open>Lines 96 and 97: the instance count is cut down to the physical core count.\<close>

definition clamp_instances :: "CPUinfo \<Rightarrow> dict \<Rightarrow> error + dict" where
  "clamp_instances cpu parameters =
     (case getitem parameters ''instances'' of
        Inl e \<Rightarrow> Inl e
      | Inr v \<Rightarrow>
          (case py_gt v (physical_core_nums cpu) of
             Inl e \<Rightarrow> Inl e
           | Inr exceeds \<Rightarrow>
               Inr (if exceeds
                    then parameters(''instances'' \<mapsto> VInt (physical_core_nums cpu))
                    else parameters)))"

text \<open>
  Lines 99 to 106: \<^verbatim>\<open>"nb_cores"\<close> is sampled from the candidates the generator gives
  for the batch size 1 and the instance count of the dictionary.
\<close>

definition sample_nb_cores ::
  "'t collaborators \<Rightarrow> TuningMode \<Rightarrow> 't \<Rightarrow> dict \<Rightarrow> error + dict \<times> 't" where
  "sample_nb_cores env mode trial parameters =
     (case getitem parameters ''instances'' of
        Inl e \<Rightarrow> Inl e
      | Inr nb_instances \<Rightarrow>
          (case generate_nb_cores_candidates env (VInt 1) mode (cpu_info env) nb_instances of
             Inl e \<Rightarrow> Inl e
           | Inr candidates \<Rightarrow>
               (case suggest_categorical env trial ''nb_cores'' (map VInt candidates) of
                  Inl e \<Rightarrow> Inl e
                | Inr (v, trial') \<Rightarrow> Inr (parameters(''nb_cores'' \<mapsto> v), trial'))))"

text \<open>Lines 60 to 106: the launcher configuration of one trial.\<close>

definition assemble_parameters ::
  "'t collaborators \<Rightarrow> TuningMode \<Rightarrow> 't \<Rightarrow> dict \<Rightarrow> dict \<Rightarrow> error + dict \<times> 't" where
  "assemble_parameters env mode trial launcher_parameters main_parameters =
     (case merged_parameters env mode trial launcher_parameters main_parameters of
        Inl e \<Rightarrow> Inl e
      | Inr (merged, t1) \<Rightarrow>
          (case clamp_instances (cpu_info env) merged of
             Inl e \<Rightarrow> Inl e
           | Inr clamped \<Rightarrow> sample_nb_cores env mode t1 clamped))"

text \<open>
  \<^verbatim>\<open>list(filter(lambda size: size % parameters["instances"] == 0, batch_size))\<close>: the
  elements are tested in order and the first test that raises ends the filter.
\<close>

fun filter_divisible :: "pyval \<Rightarrow> pyval list \<Rightarrow> error + pyval list" where
  "filter_divisible nb_instances [] = Inr []"
| "filter_divisible nb_instances (candidate # sizes) =
     (case mod_is_zero candidate nb_instances of
        Inl e \<Rightarrow> Inl e
      | Inr keep \<Rightarrow>
          (case filter_divisible nb_instances sizes of
             Inl e \<Rightarrow> Inl e
           | Inr kept \<Rightarrow> Inr (if keep then candidate # kept else kept)))"

text \<open>
  Lines 108 to 113: the batch size is read, a list of more than one element is
  filtered, and the result is stored back under \<^verbatim>\<open>"batch_size"\<close> in the dictionary
  the function was given.
\<close>

definition filter_batch_size :: "dict \<Rightarrow> dict \<Rightarrow> error + dict" where
  "filter_batch_size parameters main_parameters =
     (case getitem main_parameters ''batch_size'' of
        Inl e \<Rightarrow> Inl e
      | Inr batch_size \<Rightarrow>
          (case batch_size of
             VList sizes \<Rightarrow>
               (if length sizes > 1 then
                  (case getitem parameters ''instances'' of
                     Inl e \<Rightarrow> Inl e
                   | Inr nb_instances \<Rightarrow>
                       (case filter_divisible nb_instances sizes of
                          Inl e \<Rightarrow> Inl e
                        | Inr kept \<Rightarrow> Inr (main_parameters(''batch_size'' \<mapsto> VList kept))))
                else Inr (main_parameters(''batch_size'' \<mapsto> batch_size)))
           | _ \<Rightarrow> Inr (main_parameters(''batch_size'' \<mapsto> batch_size))))"

text \<open>\<^verbatim>\<open>if x is None: x = {}\<close>\<close>

definition or_empty :: "dict option \<Rightarrow> dict" where
  "or_empty d = (case d of None \<Rightarrow> Map.empty | Some m \<Rightarrow> m)"

text \<open>
  Lines 53 to 116: the two arguments with which the launcher is called, and the
  trial after the sampling.
\<close>

definition launcher_arguments ::
  "'t collaborators \<Rightarrow> TuningMode \<Rightarrow> 't \<Rightarrow> dict option \<Rightarrow> dict option \<Rightarrow>
     error + dict \<times> dict \<times> 't" where
  "launcher_arguments env mode trial launcher_parameters main_parameters =
     (case assemble_parameters env mode trial
             (or_empty launcher_parameters) (or_empty main_parameters) of
        Inl e \<Rightarrow> Inl e
      | Inr (parameters, trial') \<Rightarrow>
          (case filter_batch_size parameters (or_empty main_parameters) of
             Inl e \<Rightarrow> Inl e
           | Inr main' \<Rightarrow> Inr (parameters, main', trial')))"

text \<open>
  \<^verbatim>\<open>_optimize_latency_and_throughput\<close>. The dictionary \<^verbatim>\<open>main_parameters\<close> is an
  object the caller shares with the function: the model takes its content and
  returns the content after the call. When the caller passed \<^verbatim>\<open>None\<close>, the function
  works on a dictionary of its own and the caller's \<^verbatim>\<open>None\<close> stays. An exception
  ends the tuning run, so the model keeps no state beside it.
\<close>

definition priv_optimize_latency_and_throughput ::
  "'t collaborators \<Rightarrow> TuningMode \<Rightarrow> 't \<Rightarrow> dict option \<Rightarrow> dict option \<Rightarrow>
     error + ExperimentResult \<times> 't \<times> dict option" where
  "priv_optimize_latency_and_throughput env mode trial launcher_parameters main_parameters =
     (case launcher_arguments env mode trial launcher_parameters main_parameters of
        Inl e \<Rightarrow> Inl e
      | Inr (parameters, main', trial') \<Rightarrow>
          (case launch_and_wait env parameters main' of
             Inl e \<Rightarrow> Inl e
           | Inr experiment_result \<Rightarrow>
               Inr (experiment_result, trial',
                    (case main_parameters of None \<Rightarrow> None | Some _ \<Rightarrow> Some main'))))"

definition optimize_latency_and_throughput ::
  "'t collaborators \<Rightarrow> 't \<Rightarrow> dict option \<Rightarrow> dict option \<Rightarrow>
     error + (real \<times> real) \<times> 't \<times> dict option" where
  "optimize_latency_and_throughput env trial launcher_parameters main_parameters =
     (case priv_optimize_latency_and_throughput env BOTH trial
             launcher_parameters main_parameters of
        Inl e \<Rightarrow> Inl e
      | Inr (experiment_result, s) \<Rightarrow>
          Inr ((latency experiment_result, throughput experiment_result), s))"

definition optimize_latency ::
  "'t collaborators \<Rightarrow> 't \<Rightarrow> dict option \<Rightarrow> dict option \<Rightarrow>
     error + real \<times> 't \<times> dict option" where
  "optimize_latency env trial launcher_parameters main_parameters =
     (case priv_optimize_latency_and_throughput env LATENCY trial
             launcher_parameters main_parameters of
        Inl e \<Rightarrow> Inl e
      | Inr (experiment_result, s) \<Rightarrow> Inr (latency experiment_result, s))"

definition optimize_throughput ::
  "'t collaborators \<Rightarrow> 't \<Rightarrow> dict option \<Rightarrow> dict option \<Rightarrow>
     error + real \<times> 't \<times> dict option" where
  "optimize_throughput env trial launcher_parameters main_parameters =
     (case priv_optimize_latency_and_throughput env THROUGHPUT trial
             launcher_parameters main_parameters of
        Inl e \<Rightarrow> Inl e
      | Inr (experiment_result, s) \<Rightarrow> Inr (throughput experiment_result, s))"

section \<open>Binding the parameters\<close>

text \<open>
  The dictionary comprehension of \<^verbatim>\<open>specialize_objective\<close>: the caller's launcher
  parameters are prepared one by one, in the order of the dictionary, which is
  therefore a list of items here.
\<close>

fun prepare_items ::
  "'t collaborators \<Rightarrow> 't \<Rightarrow> (string \<times> pyval) list \<Rightarrow> dict \<Rightarrow> error + dict \<times> 't" where
  "prepare_items env trial [] prepared = Inr (prepared, trial)"
| "prepare_items env trial ((k, v) # items) prepared =
     (case prepare_parameter_for_optuna env trial k v of
        Inl e \<Rightarrow> Inl e
      | Inr (v', trial') \<Rightarrow> prepare_items env trial' items (prepared(k \<mapsto> v')))"

text \<open>
  \<^verbatim>\<open>specialize_objective(optimize_fn, launcher_parameters, main_parameters)\<close> returns
  the wrapper; the model is the wrapper applied to a trial. The wrapper holds a
  reference to the caller's \<^verbatim>\<open>main_parameters\<close>, whose current content is the last
  argument.
\<close>

definition specialize_objective ::
  "'t collaborators \<Rightarrow> ('t \<Rightarrow> dict option \<Rightarrow> dict option \<Rightarrow> error + 'r) \<Rightarrow>
     (string \<times> pyval) list option \<Rightarrow> 't \<Rightarrow> dict option \<Rightarrow> error + 'r" where
  "specialize_objective env optimize_fn launcher_parameters trial main_parameters =
     (case prepare_items env trial
             (case launcher_parameters of None \<Rightarrow> [] | Some items \<Rightarrow> items) Map.empty of
        Inl e \<Rightarrow> Inl e
      | Inr (prepared_launcher_parameters, trial') \<Rightarrow>
          optimize_fn trial' (Some prepared_launcher_parameters) main_parameters)"

section \<open>Tuning driver\<close>

datatype sampler = TPESampler | NSGAIISampler

datatype study_constructor = create_study | multi_objective_create_study

text \<open>The keyword arguments \<^verbatim>\<open>direction=...\<close> or \<^verbatim>\<open>directions=[...]\<close>.\<close>

datatype study_directions = Direction string | Directions "string list"

record 't study =
  constructed_by :: study_constructor
  study_sampler :: sampler
  study_directions :: study_directions
  trials :: "('t \<times> objective_value) list"

fun mode2directions :: "TuningMode \<Rightarrow> study_directions" where
  "mode2directions LATENCY = Direction ''minimize''"
| "mode2directions THROUGHPUT = Direction ''maximize''"
| "mode2directions BOTH = Directions [''minimize'', ''maximize'']"

fun mode2sampler :: "TuningMode \<Rightarrow> sampler" where
  "mode2sampler LATENCY = TPESampler"
| "mode2sampler THROUGHPUT = TPESampler"
| "mode2sampler BOTH = NSGAIISampler"

fun mode2create_study :: "TuningMode \<Rightarrow> study_constructor" where
  "mode2create_study LATENCY = create_study"
| "mode2create_study THROUGHPUT = create_study"
| "mode2create_study BOTH = multi_objective_create_study"

text \<open>Lines 182 to 185: the study of a run, before any trial.\<close>

definition new_study :: "TuningMode \<Rightarrow> 't study" where
  "new_study mode =
     \<lparr>constructed_by = mode2create_study mode,
      study_sampler = mode2sampler mode,
      study_directions = mode2directions mode,
      trials = []\<rparr>"

fun mode2objective ::
  "'t collaborators \<Rightarrow> TuningMode \<Rightarrow> 't \<Rightarrow> dict option \<Rightarrow> dict option \<Rightarrow>
     error + objective_value \<times> 't \<times> dict option" where
  "mode2objective env LATENCY trial launcher_parameters main_parameters =
     (case optimize_latency env trial launcher_parameters main_parameters of
        Inl e \<Rightarrow> Inl e
      | Inr (v, s) \<Rightarrow> Inr (Scalar v, s))"
| "mode2objective env THROUGHPUT trial launcher_parameters main_parameters =
     (case optimize_throughput env trial launcher_parameters main_parameters of
        Inl e \<Rightarrow> Inl e
      | Inr (v, s) \<Rightarrow> Inr (Scalar v, s))"
| "mode2objective env BOTH trial launcher_parameters main_parameters =
     (case optimize_latency_and_throughput env trial launcher_parameters main_parameters of
        Inl e \<Rightarrow> Inl e
      | Inr ((l, t), s) \<Rightarrow> Inr (Tuple l t, s))"

text \<open>
  \<^verbatim>\<open>study.optimize(objective, n_trials=n_trials)\<close>: the trials run one after the
  other, each on a new trial object, and an exception of the objective function
  ends the run (the optimizer catches none unless asked to). The content of the
  caller's \<^verbatim>\<open>main_parameters\<close> goes from one trial to the next.
\<close>

fun study_optimize ::
  "'t collaborators \<Rightarrow> ('t \<Rightarrow> dict option \<Rightarrow> error + objective_value \<times> 't \<times> dict option) \<Rightarrow>
     nat \<Rightarrow> 't study \<Rightarrow> dict option \<Rightarrow> error + 't study \<times> dict option" where
  "study_optimize env objective 0 study main_parameters = Inr (study, main_parameters)"
| "study_optimize env objective (Suc n) study main_parameters =
     (case objective (new_trial env (trials study)) main_parameters of
        Inl e \<Rightarrow> Inl e
      | Inr (v, trial', main') \<Rightarrow>
          study_optimize env objective n
            (study\<lparr>trials := trials study @ [(trial', v)]\<rparr>) main')"

text \<open>
  \<^verbatim>\<open>os.path.join(a, b)\<close> for two components, on POSIX: an absolute second component
  replaces the first.
\<close>

definition os_path_join :: "string \<Rightarrow> string \<Rightarrow> string" where
  "os_path_join a b =
     (if b \<noteq> [] \<and> hd b = CHR ''/'' then b
      else if a = [] \<or> last a = CHR ''/'' then a @ b
      else a @ ''/'' @ b)"

text \<open>
  What the driver does to the outside, in order: the calls of
  \<^verbatim>\<open>get_param_importances\<close> (with the index of the objective, if one is given) and
  the files it writes. Printing is left out.
\<close>

datatype event =
    Dump string
  | GetParamImportances "nat option"
  | ToCsv string
  | WriteImage string

text \<open>
  Lines 207 to 262. The condition \<^verbatim>\<open>mode is TuningMode.LATENCY_AND_THROUGHPUT\<close> first
  looks the member up, then compares.
\<close>

definition report_results :: "TuningMode \<Rightarrow> string \<Rightarrow> event list \<times> error option" where
  "report_results mode exp_name =
     (case TuningMode_getattr ''LATENCY_AND_THROUGHPUT'' of
        Inl e \<Rightarrow> ([], Some e)
      | Inr m \<Rightarrow>
          (if mode = m then
             ([GetParamImportances (Some 0), GetParamImportances (Some 1),
               ToCsv (os_path_join ''outputs'' (exp_name @ ''_importances.csv'')),
               WriteImage (os_path_join ''outputs'' (exp_name @ ''_pareto_front.png''))], None)
           else
             ([GetParamImportances None,
               ToCsv (os_path_join ''outputs'' (exp_name @ ''_importances_and_values.csv''))],
              None)))"

text \<open>The keyword arguments of the driver; each may be missing.\<close>

record tune_kwargs =
  kw_mode :: "TuningMode option"
  kw_exp_name :: "string option"
  kw_n_trials :: "nat option"

text \<open>
  Modelled from the spec: \<^verbatim>\<open>check_tune_function_kwargs\<close> is imported from \<^verbatim>\<open>.utils\<close>,
  which is not among the sources. The spec: the required control keys (mode,
  experiment name, trial count) must be present, and the call is rejected with an
  explicit error otherwise.
\<close>

definition check_tune_function_kwargs ::
  "tune_kwargs \<Rightarrow> error + TuningMode \<times> string \<times> nat" where
  "check_tune_function_kwargs kwargs =
     (case (kw_mode kwargs, kw_exp_name kwargs, kw_n_trials kwargs) of
        (Some mode, Some exp_name, Some n_trials) \<Rightarrow> Inr (mode, exp_name, n_trials)
      | _ \<Rightarrow> Inl (CollaboratorError ''check_tune_function_kwargs''))"

text \<open>
  \<^verbatim>\<open>optuna_tune\<close>: the events of the run, and the exception that ended it, if any.
\<close>

definition optuna_tune ::
  "'t collaborators \<Rightarrow> dict option \<Rightarrow> (string \<times> pyval) list option \<Rightarrow> tune_kwargs \<Rightarrow>
     event list \<times> error option" where
  "optuna_tune env main_parameters launcher_parameters kwargs =
     (case check_tune_function_kwargs kwargs of
        Inl e \<Rightarrow> ([], Some e)
      | Inr (mode, exp_name, n_trials) \<Rightarrow>
          (case study_optimize env
                  (specialize_objective env (mode2objective env mode) launcher_parameters)
                  n_trials (new_study mode) main_parameters of
             Inl e \<Rightarrow> ([], Some e)
           | Inr (study, main') \<Rightarrow>
               (let study_path = os_path_join ''outputs'' (exp_name @ ''_study.pkl'');
                    (events, raised) = report_results mode exp_name
                in (Dump study_path # events, raised))))"

section \<open>A concrete host\<close>

text \<open>
  Collaborators to run the model on: a trial that holds its number and the values
  it has given out, and that answers a name it has not seen with the choice at the
  position of its number (modulo the number of choices); generators of fixed shape;
  a host of eight cores; a launcher that measures the same every time.
\<close>

record demo_trial =
  trial_number :: nat
  trial_params :: "(string \<times> pyval) list"

definition demo_suggest ::
  "demo_trial \<Rightarrow> string \<Rightarrow> pyval list \<Rightarrow> error + pyval \<times> demo_trial" where
  "demo_suggest trial name choices =
     (if choices = [] then Inl (CollaboratorError ''suggest_categorical'')
      else
        case map_of (trial_params trial) name of
          Some v \<Rightarrow> Inr (v, trial)
        | None \<Rightarrow>
            (let v = choices ! (trial_number trial mod length choices)
             in Inr (v, trial\<lparr>trial_params := trial_params trial @ [(name, v)]\<rparr>)))"

definition demo_nb_cores_candidates ::
  "pyval \<Rightarrow> TuningMode \<Rightarrow> CPUinfo \<Rightarrow> pyval \<Rightarrow> error + int list" where
  "demo_nb_cores_candidates batch_size mode cpu nb_instances =
     (case nb_instances of
        VInt n \<Rightarrow>
          (if n > 0 then Inr [physical_core_nums cpu div n]
           else Inl (CollaboratorError ''generate_nb_cores_candidates''))
      | _ \<Rightarrow> Inl (CollaboratorError ''generate_nb_cores_candidates''))"

definition demo :: "demo_trial collaborators" where
  "demo =
     \<lparr>suggest_categorical = demo_suggest,
      generate_nb_instances_candidates = (\<lambda>batch_size mode cpu. Inr [1, 2, 4]),
      generate_nb_cores_candidates = demo_nb_cores_candidates,
      launch_and_wait = (\<lambda>parameters main. Inr \<lparr>latency = 12, throughput = 80\<rparr>),
      cpu_info = \<lparr>physical_core_nums = 8\<rparr>,
      new_trial = (\<lambda>history. \<lparr>trial_number = length history, trial_params = []\<rparr>)\<rparr>"

text \<open>
  The same host with a generator of instance counts that follows the batch size: an
  integer batch size gets that one count, anything else the count 1.
\<close>

definition demo_instances_by_batch_size :: "demo_trial collaborators" where
  "demo_instances_by_batch_size =
     demo\<lparr>generate_nb_instances_candidates :=
            (\<lambda>batch_size mode cpu. case batch_size of VInt b \<Rightarrow> Inr [b] | _ \<Rightarrow> Inr [1])\<rparr>"

definition trial0 :: demo_trial where
  "trial0 = \<lparr>trial_number = 0, trial_params = []\<rparr>"

text \<open>Readers of a result, for statements about concrete runs.\<close>

definition configured :: "error + dict \<times> 'a \<Rightarrow> string \<Rightarrow> pyval option" where
  "configured r k = (case r of Inl e \<Rightarrow> None | Inr (parameters, rest) \<Rightarrow> parameters k)"

definition launched_with :: "error + dict \<times> dict \<times> 't \<Rightarrow> string \<Rightarrow> pyval option" where
  "launched_with r k =
     (case r of Inl e \<Rightarrow> None | Inr (parameters, main', trial') \<Rightarrow> main' k)"

definition main_after :: "error + 'a \<times> 't \<times> dict option \<Rightarrow> string \<Rightarrow> pyval option" where
  "main_after r k =
     (case r of
        Inl e \<Rightarrow> None
      | Inr (v, trial', None) \<Rightarrow> None
      | Inr (v, trial', Some main') \<Rightarrow> main' k)"

definition next_trial_sees :: "error + 's \<times> dict option \<Rightarrow> string \<Rightarrow> pyval option" where
  "next_trial_sees r k =
     (case r of
        Inl e \<Rightarrow> None
      | Inr (study, None) \<Rightarrow> None
      | Inr (study, Some main') \<Rightarrow> main' k)"

text \<open>
  A batch size is evenly divisible by an instance count when it is an integer that
  the count divides.
\<close>

fun evenly_divisible :: "int \<Rightarrow> pyval \<Rightarrow> bool" where
  "evenly_divisible n (VInt a) = (n dvd a)"
| "evenly_divisible n v = False"

text \<open>
  The collaborators with another sampler for one name: whatever is asked under the
  name \<open>k\<close> is answered by \<open>f\<close>.
\<close>

definition resample_at ::
  "'t collaborators \<Rightarrow> string \<Rightarrow> ('t \<Rightarrow> pyval list \<Rightarrow> error + pyval \<times> 't) \<Rightarrow> 't collaborators" where
  "resample_at env k f =
     env\<lparr>suggest_categorical :=
           (\<lambda>t name. if name = k then f t else suggest_categorical env t name)\<rparr>"

section \<open>The steps of the objective function\<close>

lemmas objective_defs =
  launcher_arguments_def assemble_parameters_def merged_parameters_def
  sample_instances_def sample_unless_given_def clamp_instances_def sample_nb_cores_def
  filter_batch_size_def or_empty_def getitem_def

lemmas demo_defs =
  demo_def demo_suggest_def demo_nb_cores_candidates_def trial0_def Let_def

lemma merged_parameters_keeps:
  assumes "merged_parameters env mode trial lp mp = Inr (merged, t1)"
    and "lp k = Some v"
  shows "merged k = Some v"
  using assms
  by (auto simp add: merged_parameters_def split: sum.splits prod.splits)

lemma clamp_instances_result:
  assumes "clamp_instances cpu merged = Inr clamped"
  shows "\<exists>m. merged ''instances'' = Some (VInt m)
           \<and> clamped = merged(''instances'' \<mapsto> VInt (min m (physical_core_nums cpu)))"
proof -
  from assms obtain v where v: "merged ''instances'' = Some v"
    by (auto simp add: clamp_instances_def getitem_def split: option.splits)
  with assms obtain m where m: "v = VInt m"
    by (cases v) (auto simp add: clamp_instances_def getitem_def)
  from assms v m show ?thesis
    by (auto simp add: clamp_instances_def getitem_def min_def fun_upd_idem_iff split: if_splits)
qed

lemma sample_nb_cores_result:
  assumes "sample_nb_cores env mode t1 clamped = Inr (parameters, trial')"
  shows "\<exists>nb_instances candidates v.
           clamped ''instances'' = Some nb_instances
         \<and> generate_nb_cores_candidates env (VInt 1) mode (cpu_info env) nb_instances =
             Inr candidates
         \<and> suggest_categorical env t1 ''nb_cores'' (map VInt candidates) = Inr (v, trial')
         \<and> parameters = clamped(''nb_cores'' \<mapsto> v)"
  using assms
  by (auto simp add: sample_nb_cores_def getitem_def split: option.splits sum.splits)

lemma assemble_parameters_steps:
  assumes "assemble_parameters env mode trial lp mp = Inr (parameters, trial')"
  shows "\<exists>merged t1 clamped.
           merged_parameters env mode trial lp mp = Inr (merged, t1)
         \<and> clamp_instances (cpu_info env) merged = Inr clamped
         \<and> sample_nb_cores env mode t1 clamped = Inr (parameters, trial')"
  using assms
  by (auto simp add: assemble_parameters_def split: sum.splits)

lemma launcher_arguments_steps:
  assumes "launcher_arguments env mode trial lp mp = Inr (parameters, main', trial')"
  shows "assemble_parameters env mode trial (or_empty lp) (or_empty mp) = Inr (parameters, trial')
         \<and> filter_batch_size parameters (or_empty mp) = Inr main'"
  using assms
  by (auto simp add: launcher_arguments_def split: sum.splits)

lemma assembled_instances:
  assumes "assemble_parameters env mode trial lp mp = Inr (parameters, trial')"
  shows "\<exists>merged t1 m.
           merged_parameters env mode trial lp mp = Inr (merged, t1)
         \<and> merged ''instances'' = Some (VInt m)
         \<and> parameters ''instances'' = Some (VInt (min m (physical_core_nums (cpu_info env))))"
proof -
  from assemble_parameters_steps [OF assms] obtain merged t1 clamped where
    merged: "merged_parameters env mode trial lp mp = Inr (merged, t1)"
    and clamped: "clamp_instances (cpu_info env) merged = Inr clamped"
    and sampled: "sample_nb_cores env mode t1 clamped = Inr (parameters, trial')"
    by blast
  from clamp_instances_result [OF clamped] obtain m where
    m: "merged ''instances'' = Some (VInt m)"
    and c: "clamped = merged(''instances'' \<mapsto> VInt (min m (physical_core_nums (cpu_info env))))"
    by blast
  from sample_nb_cores_result [OF sampled] obtain v where
    p: "parameters = clamped(''nb_cores'' \<mapsto> v)"
    by blast
  from merged m c p show ?thesis by simp
qed

lemma assembled_other_keys:
  assumes "assemble_parameters env mode trial lp mp = Inr (parameters, trial')"
    and "k \<noteq> ''instances''" and "k \<noteq> ''nb_cores''"
  shows "\<exists>merged t1. merged_parameters env mode trial lp mp = Inr (merged, t1)
           \<and> parameters k = merged k"
proof -
  from assemble_parameters_steps [OF assms(1)] obtain merged t1 clamped where
    merged: "merged_parameters env mode trial lp mp = Inr (merged, t1)"
    and clamped: "clamp_instances (cpu_info env) merged = Inr clamped"
    and sampled: "sample_nb_cores env mode t1 clamped = Inr (parameters, trial')"
    by blast
  from clamp_instances_result [OF clamped] obtain m where
    c: "clamped = merged(''instances'' \<mapsto> VInt (min m (physical_core_nums (cpu_info env))))"
    by blast
  from sample_nb_cores_result [OF sampled] obtain v where
    p: "parameters = clamped(''nb_cores'' \<mapsto> v)"
    by blast
  from merged c p assms(2,3) show ?thesis by simp
qed

lemma filter_divisible_result:
  assumes "filter_divisible (VInt n) sizes = Inr kept"
  shows "kept = filter (evenly_divisible n) sizes"
  using assms
proof (induction sizes arbitrary: kept)
  case Nil
  then show ?case by simp
next
  case (Cons candidate sizes)
  from Cons.prems obtain a where a: "candidate = VInt a" and n: "n \<noteq> 0"
    by (cases candidate) (auto split: if_splits)
  from Cons.prems a n obtain rest where rest: "filter_divisible (VInt n) sizes = Inr rest"
    and kept: "kept = (if a mod n = 0 then candidate # rest else rest)"
    by (auto split: sum.splits)
  from Cons.IH [OF rest] kept a show ?case
    by (simp add: mod_eq_0_iff_dvd)
qed

lemma resample_at_fields:
  "name \<noteq> k \<Longrightarrow>
     suggest_categorical (resample_at env k f) t name = suggest_categorical env t name"
  "generate_nb_instances_candidates (resample_at env k f) = generate_nb_instances_candidates env"
  "generate_nb_cores_candidates (resample_at env k f) = generate_nb_cores_candidates env"
  "launch_and_wait (resample_at env k f) = launch_and_wait env"
  "cpu_info (resample_at env k f) = cpu_info env"
  by (simp_all add: resample_at_def)

lemma sample_unless_given_resample:
  assumes "lp k \<noteq> None"
  shows "sample_unless_given (resample_at env k f) t lp p key choices =
         sample_unless_given env t lp p key choices"
proof (cases "lp key = None")
  case True
  with assms have "key \<noteq> k" by auto
  then show ?thesis
    by (simp add: sample_unless_given_def resample_at_fields
        cong: sum.case_cong prod.case_cong)
next
  case False
  then show ?thesis by (simp add: sample_unless_given_def)
qed

lemma sample_instances_resample:
  assumes "lp k \<noteq> None"
  shows "sample_instances (resample_at env k f) mode t lp mp p =
         sample_instances env mode t lp mp p"
proof (cases "lp ''instances'' = None")
  case True
  with assms have "''instances'' \<noteq> k" by auto
  then show ?thesis
    by (simp add: sample_instances_def resample_at_fields
        cong: sum.case_cong prod.case_cong if_cong)
next
  case False
  then show ?thesis by (simp add: sample_instances_def)
qed

lemma assemble_parameters_resample:
  assumes "lp k \<noteq> None" and "k \<noteq> ''nb_cores''"
  shows "assemble_parameters (resample_at env k f) mode t lp mp =
         assemble_parameters env mode t lp mp"
proof -
  from assms(2) have "sample_nb_cores (resample_at env k f) mode = sample_nb_cores env mode"
    by (simp add: sample_nb_cores_def resample_at_fields fun_eq_iff
        cong: sum.case_cong prod.case_cong)
  moreover have "merged_parameters (resample_at env k f) mode t lp mp =
                 merged_parameters env mode t lp mp"
    using assms(1)
    by (simp add: merged_parameters_def sample_unless_given_resample sample_instances_resample
        cong: sum.case_cong prod.case_cong)
  ultimately show ?thesis
    by (simp add: assemble_parameters_def resample_at_fields
        cong: sum.case_cong prod.case_cong)
qed

lemma assemble_parameters_without_launcher:
  "assemble_parameters (env\<lparr>launch_and_wait := l\<rparr>) mode trial lp mp =
   assemble_parameters env mode trial lp mp"
  by (simp add: assemble_parameters_def merged_parameters_def sample_instances_def
      sample_unless_given_def sample_nb_cores_def
      cong: sum.case_cong prod.case_cong if_cong)

lemma missing_batch_size_result:
  assumes "or_empty main_parameters ''batch_size'' = None"
  shows "priv_optimize_latency_and_throughput env mode trial launcher_parameters main_parameters =
           (case assemble_parameters env mode trial
                   (or_empty launcher_parameters) (or_empty main_parameters) of
              Inl e \<Rightarrow> Inl e
            | Inr configuration \<Rightarrow> Inl (KeyError ''batch_size''))"
  using assms
  by (simp add: priv_optimize_latency_and_throughput_def launcher_arguments_def
      filter_batch_size_def getitem_def split: sum.splits)

lemma assemble_parameters_ignores_main:
  assumes "lp ''instances'' \<noteq> None"
  shows "assemble_parameters env mode trial lp mp = assemble_parameters env mode trial lp mp'"
  using assms
  by (simp add: assemble_parameters_def merged_parameters_def sample_instances_def)

section \<open>Claims\<close>

text \<open>
  C1, as the code has it. For every trial that reaches the launcher and every key \<open>k\<close>
  of the launcher parameters the objective function is given, other than
  \<^verbatim>\<open>"nb_cores"\<close>: the assembled configuration holds the given value under \<open>k\<close>,
  except that an \<^verbatim>\<open>"instances"\<close> value above the physical core count is replaced by
  that count; and the objective function does not sample \<open>k\<close>: with any other
  sampler for the name \<open>k\<close> the launcher gets the same arguments and the trial ends
  in the same state.
\<close>

theorem overrides_kept_up_to_clamp:
  assumes run: "launcher_arguments env mode trial (Some launcher_parameters) main_parameters =
                  Inr (parameters, main', trial')"
    and given: "launcher_parameters k = Some v"
    and k: "k \<noteq> ''nb_cores''"
  shows "(k \<noteq> ''instances'' \<longrightarrow> parameters k = Some v)
       \<and> (k = ''instances'' \<longrightarrow>
            (\<exists>n. v = VInt n
               \<and> parameters k =
                   Some (VInt (if n > physical_core_nums (cpu_info env)
                               then physical_core_nums (cpu_info env) else n))))
       \<and> launcher_arguments (resample_at env k f) mode trial
            (Some launcher_parameters) main_parameters =
          Inr (parameters, main', trial')"
proof -
  from launcher_arguments_steps [OF run] have
    a: "assemble_parameters env mode trial launcher_parameters (or_empty main_parameters) =
          Inr (parameters, trial')"
    by (simp add: or_empty_def)
  have other: "parameters k = Some v" if "k \<noteq> ''instances''"
  proof -
    from assembled_other_keys [OF a that k] obtain merged t1 where
      m: "merged_parameters env mode trial launcher_parameters (or_empty main_parameters) =
         Inr (merged, t1)" "parameters k = merged k"
      by blast
    from merged_parameters_keeps [OF m(1) given] m(2) show ?thesis by simp
  qed
  have inst: "\<exists>n. v = VInt n
               \<and> parameters k =
                   Some (VInt (if n > physical_core_nums (cpu_info env)
                               then physical_core_nums (cpu_info env) else n))"
    if "k = ''instances''"
  proof -
    from assembled_instances [OF a] obtain merged t1 m where
      m: "merged_parameters env mode trial launcher_parameters (or_empty main_parameters) =
         Inr (merged, t1)" "merged ''instances'' = Some (VInt m)"
      "parameters ''instances'' = Some (VInt (min m (physical_core_nums (cpu_info env))))"
      by blast
    from merged_parameters_keeps [OF m(1) given] m(2) that have "v = VInt m" by simp
    with m(3) that show ?thesis by (simp add: min_def)
  qed
  from given have "launcher_parameters k \<noteq> None" by simp
  with k run
  have "launcher_arguments (resample_at env k f) mode trial
            (Some launcher_parameters) main_parameters =
          Inr (parameters, main', trial')"
    by (simp add: launcher_arguments_def or_empty_def assemble_parameters_resample)
  with other inst show ?thesis by blast
qed

text \<open>
  The theorem on the concrete host, with overrides for \<^verbatim>\<open>"instances"\<close> (100, on
  eight cores) and \<^verbatim>\<open>"allocator"\<close>, and a sampler that raises when asked for the
  overridden name.
\<close>

theorem overrides_kept_up_to_clamp_witness:
  "configured
     (launcher_arguments (resample_at demo ''instances'' (\<lambda>t choices. Inl TypeError)) BOTH trial0
        (Some [''instances'' \<mapsto> VInt 100, ''allocator'' \<mapsto> VStr ''jemalloc''])
        (Some [''batch_size'' \<mapsto> VInt 32])) ''instances'' = Some (VInt 8)
   \<and> configured
     (launcher_arguments (resample_at demo ''allocator'' (\<lambda>t choices. Inl TypeError)) BOTH trial0
        (Some [''instances'' \<mapsto> VInt 100, ''allocator'' \<mapsto> VStr ''jemalloc''])
        (Some [''batch_size'' \<mapsto> VInt 32])) ''allocator'' = Some (VStr ''jemalloc'')"
proof -
  let ?lp = "[''instances'' \<mapsto> VInt 100, ''allocator'' \<mapsto> VStr ''jemalloc'']"
  let ?r = "launcher_arguments demo BOTH trial0 (Some ?lp) (Some [''batch_size'' \<mapsto> VInt 32])"
  have "configured ?r ''instances'' = Some (VInt 8)"
    by (simp add: configured_def objective_defs demo_defs)
  then obtain p m t where run: "?r = Inr (p, m, t)"
    by (cases ?r) (auto simp add: configured_def)
  have i: "?lp ''instances'' = Some (VInt 100)" and a: "?lp ''allocator'' = Some (VStr ''jemalloc'')"
    by simp_all
  have ni: "''instances'' \<noteq> ''nb_cores''" and na: "''allocator'' \<noteq> ''nb_cores''"
    by simp_all
  note kept_i = overrides_kept_up_to_clamp [OF run i ni, where f = "\<lambda>t choices. Inl TypeError"]
  note kept_a = overrides_kept_up_to_clamp [OF run a na, where f = "\<lambda>t choices. Inl TypeError"]
  from kept_i have pi: "p ''instances'' = Some (VInt 8)"
    by (simp add: demo_def)
  from kept_a have pa: "p ''allocator'' = Some (VStr ''jemalloc'')"
    by simp
  from kept_i have ri:
    "launcher_arguments (resample_at demo ''instances'' (\<lambda>t choices. Inl TypeError)) BOTH trial0
       (Some ?lp) (Some [''batch_size'' \<mapsto> VInt 32]) = Inr (p, m, t)"
    by blast
  from kept_a have ra:
    "launcher_arguments (resample_at demo ''allocator'' (\<lambda>t choices. Inl TypeError)) BOTH trial0
       (Some ?lp) (Some [''batch_size'' \<mapsto> VInt 32]) = Inr (p, m, t)"
    by blast
  show ?thesis
    unfolding ri ra configured_def using pi pa by simp
qed

text \<open>
  C1 as stated fails: on eight cores the caller's \<^verbatim>\<open>"instances": 100\<close> reaches the
  launcher as 8, and the caller's \<^verbatim>\<open>"nb_cores": 3\<close> is replaced by the sampled
  value 1.
\<close>

theorem override_replaced_counterexample:
  "configured
     (launcher_arguments demo BOTH trial0
        (Some [''instances'' \<mapsto> VInt 100, ''nb_cores'' \<mapsto> VInt 3])
        (Some [''batch_size'' \<mapsto> VInt 32])) ''instances'' = Some (VInt 8)
   \<and> configured
     (launcher_arguments demo BOTH trial0
        (Some [''instances'' \<mapsto> VInt 100, ''nb_cores'' \<mapsto> VInt 3])
        (Some [''batch_size'' \<mapsto> VInt 32])) ''nb_cores'' = Some (VInt 1)"
  by (simp add: configured_def objective_defs demo_defs)

text \<open>
  C2 is what the driver is meant to do, and what it does not do. After the trials
  and the dump of the study the condition of line 210 reads
  \<^verbatim>\<open>TuningMode.LATENCY_AND_THROUGHPUT\<close>, a name the enumeration does not have (the
  dispatch tables of the same function say \<^verbatim>\<open>TuningMode.BOTH\<close>): the run ends with
  \<^verbatim>\<open>AttributeError\<close>, no importances are computed and neither the table nor the
  Pareto-front image is written. Here with mode BOTH, the experiment name
  \<^verbatim>\<open>exp\<close> and two trials.
\<close>

theorem multi_objective_report_unreachable:
  "optuna_tune demo (Some [''batch_size'' \<mapsto> VInt 32]) (Some [(''allocator'', VStr ''jemalloc'')])
     \<lparr>kw_mode = Some BOTH, kw_exp_name = Some ''exp'', kw_n_trials = Some 2\<rparr> =
   ([Dump ''outputs/exp_study.pkl''], Some (AttributeError ''LATENCY_AND_THROUGHPUT''))"
  by code_simp

text \<open>
  C3. For every trial that reaches the launcher, the \<^verbatim>\<open>"instances"\<close> value of the
  configuration is an integer that does not exceed the physical core count of the
  host: it is that count when the value after merging the overrides exceeds it, and
  the merged value otherwise.
\<close>

theorem instances_clamped:
  assumes "launcher_arguments env mode trial launcher_parameters main_parameters =
             Inr (parameters, main', trial')"
  shows "\<exists>merged t1 m n.
           merged_parameters env mode trial
             (or_empty launcher_parameters) (or_empty main_parameters) = Inr (merged, t1)
         \<and> merged ''instances'' = Some (VInt m)
         \<and> parameters ''instances'' = Some (VInt n)
         \<and> n \<le> physical_core_nums (cpu_info env)
         \<and> n = (if m > physical_core_nums (cpu_info env)
                then physical_core_nums (cpu_info env) else m)"
proof -
  from launcher_arguments_steps [OF assms] have
    "assemble_parameters env mode trial
       (or_empty launcher_parameters) (or_empty main_parameters) = Inr (parameters, trial')"
    by simp
  from assembled_instances [OF this] obtain merged t1 m where
    "merged_parameters env mode trial
       (or_empty launcher_parameters) (or_empty main_parameters) = Inr (merged, t1)"
    "merged ''instances'' = Some (VInt m)"
    "parameters ''instances'' = Some (VInt (min m (physical_core_nums (cpu_info env))))"
    by blast
  then show ?thesis
    by (intro exI [of _ merged] exI [of _ t1] exI [of _ m]
        exI [of _ "min m (physical_core_nums (cpu_info env))"]) (simp add: min_def)
qed

text \<open>
  On the concrete host of eight cores, an override of 100 instances reaches the
  launcher as 8.
\<close>

theorem instances_clamped_witness:
  "configured
     (launcher_arguments demo BOTH trial0 (Some [''instances'' \<mapsto> VInt 100])
        (Some [''batch_size'' \<mapsto> VInt 32])) ''instances'' = Some (VInt 8)"
proof -
  let ?lp = "Some [''instances'' \<mapsto> VInt 100]"
  let ?mp = "Some [''batch_size'' \<mapsto> VInt 32]"
  let ?r = "launcher_arguments demo BOTH trial0 ?lp ?mp"
  have "\<exists>p m t. ?r = Inr (p, m, t)"
    by (simp add: objective_defs demo_defs)
  then obtain p m t where run: "?r = Inr (p, m, t)"
    by blast
  from instances_clamped [OF run] obtain merged t1 before n where
    merged: "merged_parameters demo BOTH trial0 (or_empty ?lp) (or_empty ?mp) = Inr (merged, t1)"
    and before: "merged ''instances'' = Some (VInt before)"
    and n: "p ''instances'' = Some (VInt n)"
      "n = (if before > physical_core_nums (cpu_info demo)
            then physical_core_nums (cpu_info demo) else before)"
    by blast
  from merged before have "before = 100"
    by (auto simp add: objective_defs demo_defs)
  with n have "p ''instances'' = Some (VInt 8)"
    by (simp add: demo_def)
  with run show ?thesis
    by (simp add: configured_def)
qed

text \<open>
  C4. For every trial that reaches the launcher, the batch size the launcher is
  given is: for a list of more than one candidate, the candidates that the
  instance count of the configuration divides evenly, in their order; for any
  other value (a scalar, a list of one element or none), the value itself.
\<close>

theorem batch_size_filtered:
  assumes "launcher_arguments env mode trial launcher_parameters (Some main_parameters) =
             Inr (parameters, main', trial')"
  shows "\<exists>n batch_size.
           parameters ''instances'' = Some (VInt n)
         \<and> main_parameters ''batch_size'' = Some batch_size
         \<and> main' ''batch_size'' =
             Some (case batch_size of
                     VList sizes \<Rightarrow>
                       if length sizes > 1 then VList (filter (evenly_divisible n) sizes)
                       else batch_size
                   | _ \<Rightarrow> batch_size)"
proof -
  from launcher_arguments_steps [OF assms] have
    a: "assemble_parameters env mode trial
          (or_empty launcher_parameters) main_parameters = Inr (parameters, trial')"
    and f: "filter_batch_size parameters main_parameters = Inr main'"
    by (simp_all add: or_empty_def)
  from assembled_instances [OF a] obtain n where n: "parameters ''instances'' = Some (VInt n)"
    by blast
  from f obtain batch_size where b: "main_parameters ''batch_size'' = Some batch_size"
    by (auto simp add: filter_batch_size_def getitem_def split: option.splits)
  have "main' ''batch_size'' =
          Some (case batch_size of
                  VList sizes \<Rightarrow>
                    if length sizes > 1 then VList (filter (evenly_divisible n) sizes)
                    else batch_size
                | _ \<Rightarrow> batch_size)"
  proof (cases batch_size)
    case (VList sizes)
    show ?thesis
    proof (cases "length sizes > 1")
      case True
      with f b n VList obtain kept where k: "filter_divisible (VInt n) sizes = Inr kept"
        and m: "main' = main_parameters(''batch_size'' \<mapsto> VList kept)"
        by (auto simp add: filter_batch_size_def getitem_def split: sum.splits)
      from filter_divisible_result [OF k] m VList True show ?thesis by simp
    next
      case False
      with f b VList show ?thesis
        by (auto simp add: filter_batch_size_def getitem_def)
    qed
  qed (use f b in \<open>auto simp add: filter_batch_size_def getitem_def\<close>)
  with n b show ?thesis by blast
qed

text \<open>
  The example of the spec: the candidates 16, 17, 32 with four instances give
  16, 32; next to it a list of one element and a scalar, which pass as they are.
\<close>

theorem batch_size_filtered_witness:
  "launched_with
     (launcher_arguments demo BOTH trial0 (Some [''instances'' \<mapsto> VInt 4])
        (Some [''batch_size'' \<mapsto> VList [VInt 16, VInt 17, VInt 32]])) ''batch_size'' =
     Some (VList [VInt 16, VInt 32])
   \<and> launched_with
     (launcher_arguments demo BOTH trial0 (Some [''instances'' \<mapsto> VInt 4])
        (Some [''batch_size'' \<mapsto> VList [VInt 17]])) ''batch_size'' = Some (VList [VInt 17])
   \<and> launched_with
     (launcher_arguments demo BOTH trial0 (Some [''instances'' \<mapsto> VInt 4])
        (Some [''batch_size'' \<mapsto> VInt 17])) ''batch_size'' = Some (VInt 17)"
proof -
  have filtered:
    "launched_with
       (launcher_arguments demo BOTH trial0 (Some [''instances'' \<mapsto> VInt 4])
          (Some [''batch_size'' \<mapsto> b])) ''batch_size'' =
     Some (case b of
             VList sizes \<Rightarrow>
               if length sizes > 1 then VList (filter (evenly_divisible 4) sizes) else b
           | _ \<Rightarrow> b)"
    if ok: "configured
              (launcher_arguments demo BOTH trial0 (Some [''instances'' \<mapsto> VInt 4])
                 (Some [''batch_size'' \<mapsto> b])) ''instances'' = Some (VInt 4)"
    for b
  proof -
    let ?r = "launcher_arguments demo BOTH trial0 (Some [''instances'' \<mapsto> VInt 4])
                (Some [''batch_size'' \<mapsto> b])"
    from ok obtain p m t where run: "?r = Inr (p, m, t)"
      by (cases ?r) (auto simp add: configured_def)
    from batch_size_filtered [OF run] obtain n batch_size where
      "p ''instances'' = Some (VInt n)"
      "[''batch_size'' \<mapsto> b] ''batch_size'' = Some batch_size"
      "m ''batch_size'' =
         Some (case batch_size of
                 VList sizes \<Rightarrow>
                   if length sizes > 1 then VList (filter (evenly_divisible n) sizes)
                   else batch_size
               | _ \<Rightarrow> batch_size)"
      by blast
    with ok run show ?thesis
      by (auto simp add: configured_def launched_with_def split: pyval.splits)
  qed
  have "configured
          (launcher_arguments demo BOTH trial0 (Some [''instances'' \<mapsto> VInt 4])
             (Some [''batch_size'' \<mapsto> VList [VInt 16, VInt 17, VInt 32]])) ''instances'' =
        Some (VInt 4)"
    by (simp add: configured_def objective_defs demo_defs)
  from filtered [OF this] have one: "launched_with
     (launcher_arguments demo BOTH trial0 (Some [''instances'' \<mapsto> VInt 4])
        (Some [''batch_size'' \<mapsto> VList [VInt 16, VInt 17, VInt 32]])) ''batch_size'' =
     Some (VList [VInt 16, VInt 32])"
    by simp
  have "configured
          (launcher_arguments demo BOTH trial0 (Some [''instances'' \<mapsto> VInt 4])
             (Some [''batch_size'' \<mapsto> VList [VInt 17]])) ''instances'' = Some (VInt 4)"
    by (simp add: configured_def objective_defs demo_defs)
  from filtered [OF this] have two: "launched_with
     (launcher_arguments demo BOTH trial0 (Some [''instances'' \<mapsto> VInt 4])
        (Some [''batch_size'' \<mapsto> VList [VInt 17]])) ''batch_size'' = Some (VList [VInt 17])"
    by simp
  have "configured
          (launcher_arguments demo BOTH trial0 (Some [''instances'' \<mapsto> VInt 4])
             (Some [''batch_size'' \<mapsto> VInt 17])) ''instances'' = Some (VInt 4)"
    by (simp add: configured_def objective_defs demo_defs)
  from filtered [OF this] have three: "launched_with
     (launcher_arguments demo BOTH trial0 (Some [''instances'' \<mapsto> VInt 4])
        (Some [''batch_size'' \<mapsto> VInt 17])) ''batch_size'' = Some (VInt 17)"
    by simp
  from one two three show ?thesis by blast
qed

text \<open>
  C5. When the launcher returns an experiment result for the arguments of a trial,
  the objective function of the mode returns its latency (LATENCY), its throughput
  (THROUGHPUT), or the pair of latency and throughput in this order (BOTH).
\<close>

theorem objective_value_by_mode:
  assumes "launcher_arguments env mode trial launcher_parameters main_parameters =
             Inr (parameters, main', trial')"
    and "launch_and_wait env parameters main' = Inr experiment_result"
    and "s = (trial', case main_parameters of None \<Rightarrow> None | Some m \<Rightarrow> Some main')"
  shows "(mode = LATENCY \<longrightarrow>
            optimize_latency env trial launcher_parameters main_parameters =
              Inr (latency experiment_result, s))
       \<and> (mode = THROUGHPUT \<longrightarrow>
            optimize_throughput env trial launcher_parameters main_parameters =
              Inr (throughput experiment_result, s))
       \<and> (mode = BOTH \<longrightarrow>
            optimize_latency_and_throughput env trial launcher_parameters main_parameters =
              Inr ((latency experiment_result, throughput experiment_result), s))"
  using assms
  by (auto simp add: optimize_latency_def optimize_throughput_def
      optimize_latency_and_throughput_def priv_optimize_latency_and_throughput_def)

text \<open>
  On the concrete host the launcher measures a latency of 12 and a throughput of
  80.
\<close>

theorem objective_value_by_mode_witness:
  "map_sum id fst (optimize_latency demo trial0 None (Some [''batch_size'' \<mapsto> VInt 32])) =
     Inr 12
   \<and> map_sum id fst (optimize_throughput demo trial0 None (Some [''batch_size'' \<mapsto> VInt 32])) =
     Inr 80
   \<and> map_sum id fst
       (optimize_latency_and_throughput demo trial0 None (Some [''batch_size'' \<mapsto> VInt 32])) =
     Inr (12, 80)"
proof -
  let ?mp = "Some [''batch_size'' \<mapsto> VInt 32]"
  have measured: "launch_and_wait demo p m = Inr \<lparr>latency = 12, throughput = 80\<rparr>" for p m
    by (simp add: demo_def)
  have runs: "\<exists>p m t. launcher_arguments demo mode trial0 None ?mp = Inr (p, m, t)" for mode
    by (simp add: objective_defs demo_defs)
  obtain p1 m1 t1 where "launcher_arguments demo LATENCY trial0 None ?mp = Inr (p1, m1, t1)"
    using runs by blast
  from objective_value_by_mode [OF this measured refl]
  have one: "map_sum id fst (optimize_latency demo trial0 None ?mp) = Inr 12"
    by simp
  obtain p2 m2 t2 where "launcher_arguments demo THROUGHPUT trial0 None ?mp = Inr (p2, m2, t2)"
    using runs by blast
  from objective_value_by_mode [OF this measured refl]
  have two: "map_sum id fst (optimize_throughput demo trial0 None ?mp) = Inr 80"
    by simp
  obtain p3 m3 t3 where "launcher_arguments demo BOTH trial0 None ?mp = Inr (p3, m3, t3)"
    using runs by blast
  from objective_value_by_mode [OF this measured refl]
  have three: "map_sum id fst (optimize_latency_and_throughput demo trial0 None ?mp) = Inr (12, 80)"
    by simp
  from one two three show ?thesis by blast
qed

text \<open>
  C6. The parameter preparer returns the element of a list of length one, for any
  collaborators and with the trial unchanged, so without a call of the sampler; it
  hands a list of more than one element to \<open>suggest_categorical\<close> under the key; and
  it returns a value that is not a list as it is.
\<close>

theorem prepare_parameter_for_optuna_cases:
  "prepare_parameter_for_optuna env trial key (VList [x]) = Inr (x, trial)
   \<and> prepare_parameter_for_optuna env trial key (VList (x # y # xs)) =
       suggest_categorical env trial key (x # y # xs)
   \<and> prepare_parameter_for_optuna env trial key VNone = Inr (VNone, trial)
   \<and> prepare_parameter_for_optuna env trial key (VInt n) = Inr (VInt n, trial)
   \<and> prepare_parameter_for_optuna env trial key (VStr s) = Inr (VStr s, trial)"
  by (simp add: prepare_parameter_for_optuna_def)

text \<open>
  C7 is what the spec promises and what the code breaks: line 113 stores the
  filtered list in the dictionary the caller passed, which every later trial reads.
  With the candidates 16, 17, 32, 9: a trial with four instances leaves 16, 32 in
  the caller's dictionary; in a run of the optimizer the second trial, with three
  instances, starts from 16, 32 and leaves the empty list, although 9 was a
  candidate.
\<close>

theorem batch_size_candidates_shrink:
  "main_after
     (priv_optimize_latency_and_throughput demo BOTH trial0 (Some [''instances'' \<mapsto> VInt 4])
        (Some [''batch_size'' \<mapsto> VList [VInt 16, VInt 17, VInt 32, VInt 9]]))
     ''batch_size'' = Some (VList [VInt 16, VInt 32])
   \<and> next_trial_sees
     (study_optimize demo
        (specialize_objective demo (mode2objective demo BOTH)
           (Some [(''instances'', VList [VInt 4, VInt 3])]))
        1 (new_study BOTH)
        (Some [''batch_size'' \<mapsto> VList [VInt 16, VInt 17, VInt 32, VInt 9]]))
     ''batch_size'' = Some (VList [VInt 16, VInt 32])
   \<and> next_trial_sees
     (study_optimize demo
        (specialize_objective demo (mode2objective demo BOTH)
           (Some [(''instances'', VList [VInt 4, VInt 3])]))
        2 (new_study BOTH)
        (Some [''batch_size'' \<mapsto> VList [VInt 16, VInt 17, VInt 32, VInt 9]]))
     ''batch_size'' = Some (VList [])"
  by code_simp

text \<open>
  C8, as the code has it. When \<^verbatim>\<open>main_parameters\<close> is absent or has no
  \<^verbatim>\<open>"batch_size"\<close>, the objective function fails, and it fails the same whatever the
  launcher is, which is therefore not invoked. The failure is \<^verbatim>\<open>KeyError\<close> for
  \<^verbatim>\<open>"batch_size"\<close>, at line 72 when \<^verbatim>\<open>"instances"\<close> is not overridden and at line 108
  otherwise, unless an earlier step of the assembly (the sampler, the comparison of
  the clamp, the generator of core counts) has raised: then the failure is that
  exception.
\<close>

theorem missing_batch_size_fails:
  assumes "or_empty main_parameters ''batch_size'' = None"
  shows "priv_optimize_latency_and_throughput env mode trial launcher_parameters main_parameters =
           (case assemble_parameters env mode trial
                   (or_empty launcher_parameters) (or_empty main_parameters) of
              Inl e \<Rightarrow> Inl e
            | Inr configuration \<Rightarrow> Inl (KeyError ''batch_size''))
       \<and> (or_empty launcher_parameters ''instances'' = None \<longrightarrow>
            priv_optimize_latency_and_throughput env mode trial launcher_parameters
              main_parameters = Inl (KeyError ''batch_size''))
       \<and> priv_optimize_latency_and_throughput (env\<lparr>launch_and_wait := l\<rparr>) mode trial
            launcher_parameters main_parameters =
          priv_optimize_latency_and_throughput env mode trial launcher_parameters main_parameters"
proof -
  have r: "priv_optimize_latency_and_throughput env mode trial launcher_parameters
             main_parameters =
           (case assemble_parameters env mode trial
                   (or_empty launcher_parameters) (or_empty main_parameters) of
              Inl e \<Rightarrow> Inl e
            | Inr configuration \<Rightarrow> Inl (KeyError ''batch_size''))"
    by (rule missing_batch_size_result [OF assms])
  have "priv_optimize_latency_and_throughput env mode trial launcher_parameters
          main_parameters = Inl (KeyError ''batch_size'')"
    if "or_empty launcher_parameters ''instances'' = None"
    using that assms
    by (simp add: r assemble_parameters_def merged_parameters_def sample_instances_def
        getitem_def)
  moreover have
    "priv_optimize_latency_and_throughput (env\<lparr>launch_and_wait := l\<rparr>) mode trial
       launcher_parameters main_parameters =
     priv_optimize_latency_and_throughput env mode trial launcher_parameters main_parameters"
    by (simp add: missing_batch_size_result [OF assms] assemble_parameters_without_launcher)
  ultimately show ?thesis using r by blast
qed

text \<open>
  On the concrete host: with no main parameters at all, and with main parameters
  that lack the key while \<^verbatim>\<open>"instances"\<close> is overridden.
\<close>

theorem missing_batch_size_fails_witness:
  "priv_optimize_latency_and_throughput demo LATENCY trial0 None None =
     Inl (KeyError ''batch_size'')
   \<and> priv_optimize_latency_and_throughput demo BOTH trial0
       (Some [''instances'' \<mapsto> VInt 2]) (Some [''model'' \<mapsto> VStr ''bert'']) =
     Inl (KeyError ''batch_size'')"
proof -
  have "or_empty None ''batch_size'' = None"
    by (simp add: or_empty_def)
  note absent = missing_batch_size_fails [OF this, where env = demo and mode = LATENCY
      and trial = trial0 and launcher_parameters = None and l = "launch_and_wait demo"]
  have "or_empty None ''instances'' = None"
    by (simp add: or_empty_def)
  with absent have one: "priv_optimize_latency_and_throughput demo LATENCY trial0 None None =
     Inl (KeyError ''batch_size'')"
    by blast
  let ?lp = "Some [''instances'' \<mapsto> VInt 2]"
  let ?mp = "Some [''model'' \<mapsto> VStr ''bert'']"
  have "or_empty ?mp ''batch_size'' = None"
    by (simp add: or_empty_def)
  note lacking = missing_batch_size_fails [OF this, where env = demo and mode = BOTH
      and trial = trial0 and launcher_parameters = ?lp and l = "launch_and_wait demo"]
  have "\<exists>c. assemble_parameters demo BOTH trial0 (or_empty ?lp) (or_empty ?mp) = Inr c"
    by (simp add: objective_defs demo_defs)
  then obtain c where
    c: "assemble_parameters demo BOTH trial0 (or_empty ?lp) (or_empty ?mp) = Inr c"
    by blast
  from lacking [THEN conjunct1]
  have two: "priv_optimize_latency_and_throughput demo BOTH trial0 ?lp ?mp =
     Inl (KeyError ''batch_size'')"
    by (simp add: c)
  from one two show ?thesis by blast
qed

text \<open>
  C8 as stated fails: with \<^verbatim>\<open>"instances"\<close> overridden by the string \<^verbatim>\<open>"4"\<close> and no
  main parameters, the comparison of line 96 raises \<^verbatim>\<open>TypeError\<close> before line 108
  looks \<^verbatim>\<open>"batch_size"\<close> up, so the failure is no lookup error.
\<close>

theorem missing_batch_size_other_error_counterexample:
  "priv_optimize_latency_and_throughput demo BOTH trial0
     (Some [''instances'' \<mapsto> VStr ''4'']) None = Inl TypeError"
  by (simp add: priv_optimize_latency_and_throughput_def objective_defs demo_defs)

text \<open>
  C9. The study of a run is created, as a function of the mode: by
  \<^verbatim>\<open>create_study\<close> with a TPE sampler and the direction minimize for LATENCY, the
  same with the direction maximize for THROUGHPUT, and by the multi-objective
  \<^verbatim>\<open>create_study\<close> with an NSGA-II sampler and the directions minimize, maximize in
  this order for BOTH.
\<close>

theorem driver_selection:
  "(new_study LATENCY :: 't study) =
     \<lparr>constructed_by = create_study, study_sampler = TPESampler,
      study_directions = Direction ''minimize'', trials = []\<rparr>
   \<and> (new_study THROUGHPUT :: 't study) =
     \<lparr>constructed_by = create_study, study_sampler = TPESampler,
      study_directions = Direction ''maximize'', trials = []\<rparr>
   \<and> (new_study BOTH :: 't study) =
     \<lparr>constructed_by = multi_objective_create_study, study_sampler = NSGAIISampler,
      study_directions = Directions [''minimize'', ''maximize''], trials = []\<rparr>"
  by (simp add: new_study_def)

text \<open>
  C10, as the code has it. For every trial that reaches the launcher,
  \<^verbatim>\<open>"nb_cores"\<close> is the answer of the sampler to the candidates that the generator
  of core counts returns for the batch size 1 and the instance count of the
  configuration (the clamped one). The batch size of the main parameters is no
  argument of that call, and when \<^verbatim>\<open>"instances"\<close> is overridden the whole
  configuration, \<^verbatim>\<open>"nb_cores"\<close> included, is the same for any other main parameters.
  Nothing of the kind holds when \<^verbatim>\<open>"instances"\<close> is not overridden: then line 72
  derives the instance count from the batch size.
\<close>

theorem nb_cores_candidates_from_dummy_batch_size:
  assumes "launcher_arguments env mode trial launcher_parameters main_parameters =
             Inr (parameters, main', trial')"
  shows "(\<exists>nb_instances candidates t1 v.
            parameters ''instances'' = Some nb_instances
          \<and> generate_nb_cores_candidates env (VInt 1) mode (cpu_info env) nb_instances =
              Inr candidates
          \<and> suggest_categorical env t1 ''nb_cores'' (map VInt candidates) = Inr (v, trial')
          \<and> parameters ''nb_cores'' = Some v)
       \<and> (or_empty launcher_parameters ''instances'' \<noteq> None \<longrightarrow>
            assemble_parameters env mode trial (or_empty launcher_parameters)
              other_main_parameters = Inr (parameters, trial'))"
proof -
  from launcher_arguments_steps [OF assms] have
    a: "assemble_parameters env mode trial
       (or_empty launcher_parameters) (or_empty main_parameters) = Inr (parameters, trial')"
    by simp
  from assemble_parameters_steps [OF a] obtain t1 clamped where
    "sample_nb_cores env mode t1 clamped = Inr (parameters, trial')"
    by blast
  from sample_nb_cores_result [OF this] obtain nb_instances candidates v where
    "clamped ''instances'' = Some nb_instances"
    "generate_nb_cores_candidates env (VInt 1) mode (cpu_info env) nb_instances = Inr candidates"
    "suggest_categorical env t1 ''nb_cores'' (map VInt candidates) = Inr (v, trial')"
    "parameters = clamped(''nb_cores'' \<mapsto> v)"
    by blast
  then have call: "\<exists>nb_instances candidates t1 v.
            parameters ''instances'' = Some nb_instances
          \<and> generate_nb_cores_candidates env (VInt 1) mode (cpu_info env) nb_instances =
              Inr candidates
          \<and> suggest_categorical env t1 ''nb_cores'' (map VInt candidates) = Inr (v, trial')
          \<and> parameters ''nb_cores'' = Some v"
    by (intro exI [of _ nb_instances] exI [of _ candidates] exI [of _ t1] exI [of _ v]) simp
  have "assemble_parameters env mode trial (or_empty launcher_parameters)
          other_main_parameters = Inr (parameters, trial')"
    if "or_empty launcher_parameters ''instances'' \<noteq> None"
    using a that
      assemble_parameters_ignores_main [where lp = "or_empty launcher_parameters"
        and env = env and mode = mode and trial = trial
        and mp = other_main_parameters and mp' = "or_empty main_parameters"]
    by simp
  with call show ?thesis by blast
qed

text \<open>
  On the concrete host with four instances overridden: the generator is asked as
  stated, its candidates are what the sampler gets, and the batch size 64 in place
  of 32 gives the same \<^verbatim>\<open>"nb_cores"\<close>.
\<close>

theorem nb_cores_candidates_from_dummy_batch_size_witness:
  "\<exists>candidates t1 v t'.
     generate_nb_cores_candidates demo (VInt 1) BOTH (cpu_info demo) (VInt 4) = Inr candidates
   \<and> suggest_categorical demo t1 ''nb_cores'' (map VInt candidates) = Inr (v, t')
   \<and> configured
       (launcher_arguments demo BOTH trial0 (Some [''instances'' \<mapsto> VInt 4])
          (Some [''batch_size'' \<mapsto> VInt 32])) ''nb_cores'' = Some v
   \<and> configured
       (assemble_parameters demo BOTH trial0 [''instances'' \<mapsto> VInt 4]
          [''batch_size'' \<mapsto> VInt 64]) ''nb_cores'' = Some v"
proof -
  let ?lp = "Some [''instances'' \<mapsto> VInt 4]"
  let ?r = "launcher_arguments demo BOTH trial0 ?lp (Some [''batch_size'' \<mapsto> VInt 32])"
  have ok: "configured ?r ''instances'' = Some (VInt 4)"
    by (simp add: configured_def objective_defs demo_defs)
  then obtain p m t where run: "?r = Inr (p, m, t)"
    by (cases ?r) (auto simp add: configured_def)
  have given: "or_empty ?lp ''instances'' \<noteq> None"
    by (simp add: or_empty_def)
  note th = nb_cores_candidates_from_dummy_batch_size [OF run,
      where other_main_parameters = "[''batch_size'' \<mapsto> VInt 64]"]
  from th given have other:
    "assemble_parameters demo BOTH trial0 [''instances'' \<mapsto> VInt 4]
       [''batch_size'' \<mapsto> VInt 64] = Inr (p, t)"
    by (simp add: or_empty_def)
  from th obtain nb_instances candidates t1 v where
    "p ''instances'' = Some nb_instances"
    "generate_nb_cores_candidates demo (VInt 1) BOTH (cpu_info demo) nb_instances =
       Inr candidates"
    "suggest_categorical demo t1 ''nb_cores'' (map VInt candidates) = Inr (v, t)"
    "p ''nb_cores'' = Some v"
    by blast
  with ok run other show ?thesis
    by (auto simp add: configured_def)
qed

text \<open>
  C10 as stated fails in its conclusion that the batch size never influences the
  candidates of \<^verbatim>\<open>"nb_cores"\<close>. Without an override of \<^verbatim>\<open>"instances"\<close>, on eight cores
  and with a generator of instance counts that follows the batch size: the batch
  size 2 gives two instances and the candidates 4, the batch size 4 gives four
  instances and the candidates 2.
\<close>

theorem batch_size_reaches_nb_cores_counterexample:
  "configured
     (launcher_arguments demo_instances_by_batch_size BOTH trial0 None
        (Some [''batch_size'' \<mapsto> VInt 2])) ''instances'' = Some (VInt 2)
   \<and> configured
     (launcher_arguments demo_instances_by_batch_size BOTH trial0 None
        (Some [''batch_size'' \<mapsto> VInt 2])) ''nb_cores'' = Some (VInt 4)
   \<and> configured
     (launcher_arguments demo_instances_by_batch_size BOTH trial0 None
        (Some [''batch_size'' \<mapsto> VInt 4])) ''instances'' = Some (VInt 4)
   \<and> configured
     (launcher_arguments demo_instances_by_batch_size BOTH trial0 None
        (Some [''batch_size'' \<mapsto> VInt 4])) ''nb_cores'' = Some (VInt 2)
   \<and> generate_nb_cores_candidates demo_instances_by_batch_size (VInt 1) BOTH
       (cpu_info demo_instances_by_batch_size) (VInt 2) = Inr [4]
   \<and> generate_nb_cores_candidates demo_instances_by_batch_size (VInt 1) BOTH
       (cpu_info demo_instances_by_batch_size) (VInt 4) = Inr [2]"
  by (simp add: configured_def objective_defs demo_instances_by_batch_size_def demo_defs)

end
